theory Spec2Isabelle
  imports Main "HOL-Library.Word"
begin

section \<open>JavaScript values\<close>

text \<open>
  The rows handed to \<open>add\<close> are JavaScript values. A number is an integer from
  \<open>-2^53\<close> to \<open>2^53 - 1\<close>: these are exact, and they print in plain decimal
  notation. An array is the list of its elements. An object is a plain object (its prototype
  is \<open>Object.prototype\<close>), given by the list of its own enumerable properties in the
  order \<open>Object.keys\<close> reports them. There are no function values among the data.
\<close>

datatype jsval =
    JUndefined
  | JNull
  | JBool bool
  | JNum "54 word"
  | JStr string
  | JArr "jsval list"
  | JObj "(string \<times> jsval) list"

text \<open>What the code throws: its four string exceptions, and the engine's TypeError.\<close>

datatype error = missing_path | file_not_open | invalid_data | not_a_string | TypeError

fun typeof :: "jsval \<Rightarrow> string" where
  "typeof JUndefined = ''undefined''"
| "typeof JNull = ''object''"
| "typeof (JBool b) = ''boolean''"
| "typeof (JNum n) = ''number''"
| "typeof (JStr s) = ''string''"
| "typeof (JArr xs) = ''object''"
| "typeof (JObj kvs) = ''object''"

subsection \<open>Numbers as text\<close>

definition digit_char :: "int \<Rightarrow> char" where
  "digit_char d = char_of (of_char (CHR ''0'') + d)"

function number_text :: "int \<Rightarrow> string" where
  "number_text n = (if 10 \<le> n then number_text (n div 10) else []) @ [digit_char (n mod 10)]"
  by pat_completeness auto
termination
  by (relation "measure nat") auto

declare number_text.simps [simp del]

text \<open>\<open>Number.prototype.toString\<close> on the numbers of the data.\<close>

definition number_toString :: "54 word \<Rightarrow> string" where
  "number_toString n =
     (if 0 \<le> sint n then number_text (sint n) else CHR ''-'' # number_text (- sint n))"

subsection \<open>Array.prototype.join and toString\<close>

fun join_strings :: "string \<Rightarrow> string list \<Rightarrow> string" where
  "join_strings sep [] = []"
| "join_strings sep [s] = s"
| "join_strings sep (s # t # ss) = s @ sep @ join_strings sep (t # ss)"

text \<open>
  \<open>js_toString v\<close> is the call \<open>v.toString()\<close>. An object answers with the inherited
  \<open>Object.prototype.toString\<close> unless it has an own property of that name, which in this
  value type is never callable. \<open>js_elems\<close> is the element conversion of
  \<open>Array.prototype.join\<close>: undefined and null become the empty string.
\<close>

fun js_toString :: "jsval \<Rightarrow> error + string"
  and js_elems :: "jsval list \<Rightarrow> error + string list" where
  "js_toString JUndefined = Inl TypeError"
| "js_toString JNull = Inl TypeError"
| "js_toString (JBool b) = Inr (if b then ''true'' else ''false'')"
| "js_toString (JNum n) = Inr (number_toString n)"
| "js_toString (JStr s) = Inr s"
| "js_toString (JArr xs) =
     (case js_elems xs of Inl e \<Rightarrow> Inl e | Inr ss \<Rightarrow> Inr (join_strings '','' ss))"
| "js_toString (JObj kvs) =
     (case map_of kvs ''toString'' of
        None \<Rightarrow> Inr ''[object Object]''
      | Some f \<Rightarrow> Inl TypeError)"
| "js_elems [] = Inr []"
| "js_elems (x # xs) =
     (case (if x = JUndefined \<or> x = JNull then Inr [] else js_toString x) of
        Inl e \<Rightarrow> Inl e
      | Inr s \<Rightarrow> (case js_elems xs of Inl e \<Rightarrow> Inl e | Inr ss \<Rightarrow> Inr (s # ss)))"

subsection \<open>String.prototype.replace with a string pattern\<close>

text \<open>
  \<open>find_first pat s\<close> splits \<open>s\<close> around the first occurrence of \<open>pat\<close>.
  \<open>get_substitution\<close> expands the replacement text as \<open>replace\<close> does when the
  pattern is a string (there are no capture groups): \<open>$$\<close> is a dollar sign,
  \<open>$&\<close> the matched text, \<open>$`\<close> the text before the match, \<open>$'\<close> the text
  after it; any other character stands for itself.
\<close>

fun find_first :: "string \<Rightarrow> string \<Rightarrow> (string \<times> string) option" where
  "find_first pat [] = (if pat = [] then Some ([], []) else None)"
| "find_first pat (c # cs) =
     (if take (length pat) (c # cs) = pat then Some ([], drop (length pat) (c # cs))
      else (case find_first pat cs of
              None \<Rightarrow> None
            | Some (b, a) \<Rightarrow> Some (c # b, a)))"

fun get_substitution :: "string \<Rightarrow> string \<Rightarrow> string \<Rightarrow> string \<Rightarrow> string" where
  "get_substitution m b a [] = []"
| "get_substitution m b a [c] = [c]"
| "get_substitution m b a (c # d # r) =
     (if c = CHR ''$'' then
        (if d = CHR ''$'' then CHR ''$'' # get_substitution m b a r
         else if d = CHR ''&'' then m @ get_substitution m b a r
         else if d = CHR 0x60 then b @ get_substitution m b a r
         else if d = CHR 0x27 then a @ get_substitution m b a r
         else c # get_substitution m b a (d # r))
      else c # get_substitution m b a (d # r))"

definition js_replace :: "string \<Rightarrow> string \<Rightarrow> string \<Rightarrow> string" where
  "js_replace s pat rep =
     (case find_first pat s of
        None \<Rightarrow> s
      | Some (b, a) \<Rightarrow> b @ get_substitution pat b a rep @ a)"

section \<open>Objects and their key order\<close>

text \<open>
  \<open>Object.keys\<close> lists the array-index keys first, in ascending numeric order, and
  then the other keys in the order of their creation. \<open>insert_key\<close> adds a key that the
  object does not have yet at the place where \<open>Object.keys\<close> will report it.
\<close>

definition is_digit :: "char \<Rightarrow> bool" where
  "is_digit c = (48 \<le> (of_char c :: int) \<and> (of_char c :: int) \<le> 57)"

definition int_of_digits :: "string \<Rightarrow> int" where
  "int_of_digits s = foldl (\<lambda>n c. 10 * n + ((of_char c :: int) - 48)) 0 s"

definition array_index :: "string \<Rightarrow> int option" where
  "array_index s =
     (if s \<noteq> [] \<and> list_all is_digit s \<and> (s = ''0'' \<or> hd s \<noteq> CHR ''0'')
         \<and> int_of_digits s < 4294967295
      then Some (int_of_digits s) else None)"

fun insert_key :: "string \<Rightarrow> 'v \<Rightarrow> (string \<times> 'v) list \<Rightarrow> (string \<times> 'v) list" where
  "insert_key k v [] = [(k, v)]"
| "insert_key k v ((k', v') # kvs) =
     (case array_index k of
        None \<Rightarrow> (k', v') # insert_key k v kvs
      | Some i \<Rightarrow>
          (case array_index k' of
             None \<Rightarrow> (k, v) # (k', v') # kvs
           | Some j \<Rightarrow> if i < j then (k, v) # (k', v') # kvs
                       else (k', v') # insert_key k v kvs))"

definition keys :: "(string \<times> 'v) list \<Rightarrow> string list" where
  "keys kvs = map fst kvs"

subsection \<open>Property reads\<close>

text \<open>
  A property read \<open>obj[name]\<close> on a plain object finds the own property of that name,
  and otherwise the member of \<open>Object.prototype\<close> of that name, if there is one.
  \<open>object_prototype\<close> lists the members of \<open>Object.prototype\<close>.
\<close>

definition object_prototype :: "string list" where
  "object_prototype =
     [''constructor'', ''__defineGetter__'', ''__defineSetter__'', ''hasOwnProperty'',
      ''__lookupGetter__'', ''__lookupSetter__'', ''isPrototypeOf'', ''propertyIsEnumerable'',
      ''toString'', ''valueOf'', ''__proto__'', ''toLocaleString'']"

datatype 'v property = Own 'v | Inherited | Missing

definition read_property :: "(string \<times> 'v) list \<Rightarrow> string \<Rightarrow> 'v property" where
  "read_property kvs name =
     (case map_of kvs name of
        Some v \<Rightarrow> Own v
      | None \<Rightarrow> if name \<in> set object_prototype then Inherited else Missing)"

text \<open>
  What a buffered row holds in one position: a value of the data, or, where a read fell
  through to the prototype, the member of \<open>Object.prototype\<close> of the given name.
  The members are built-in functions, except \<open>__proto__\<close>, whose read answers
  \<open>Object.prototype\<close> itself. \<open>member_text\<close> is the text that
  \<open>toString\<close> gives for a member: the engine's text of a built-in function, under the
  function's own name.
\<close>

datatype cell = Val jsval | Member string

definition member_text :: "string \<Rightarrow> string" where
  "member_text name =
     (if name = ''__proto__'' then ''[object Object]''
      else ''function '' @ (if name = ''constructor'' then ''Object'' else name)
           @ ''() { [native code] }'')"

fun cell_toString :: "cell \<Rightarrow> error + string" where
  "cell_toString (Val v) = js_toString v"
| "cell_toString (Member name) = Inr (member_text name)"

text \<open>\<open>get kvs name\<close> is the property read \<open>obj[name]\<close>.\<close>

definition get :: "(string \<times> jsval) list \<Rightarrow> string \<Rightarrow> cell" where
  "get kvs name =
     (case read_property kvs name of
        Own v \<Rightarrow> Val v
      | Inherited \<Rightarrow> Member name
      | Missing \<Rightarrow> Val JUndefined)"

text \<open>\<open>sequence\<close> runs the callbacks of a \<open>map\<close> left to right up to the first throw.\<close>

fun sequence :: "(error + 'a) list \<Rightarrow> error + 'a list" where
  "sequence [] = Inr []"
| "sequence (r # rs) =
     (case r of
        Inl e \<Rightarrow> Inl e
      | Inr x \<Rightarrow> (case sequence rs of Inl e \<Rightarrow> Inl e | Inr xs \<Rightarrow> Inr (x # xs)))"

text \<open>\<open>Array.prototype.join\<close> on a line of cells.\<close>

definition element_text :: "cell \<Rightarrow> error + string" where
  "element_text c = (if c = Val JUndefined \<or> c = Val JNull then Inr [] else cell_toString c)"

definition js_join :: "string \<Rightarrow> cell list \<Rightarrow> error + string" where
  "js_join sep cs =
     (case sequence (map element_text cs) of
        Inl e \<Rightarrow> Inl e
      | Inr ss \<Rightarrow> Inr (join_strings sep ss))"

section \<open>The File object\<close>

record field =
  quoted :: bool

text \<open>
  The \<open>path\<close> option is a string or a zero-argument function. A function may answer
  differently each time it is called, so it is given by its answers: \<open>PathFun g\<close>
  returns \<open>g n\<close> on its \<open>n\<close>-th call.
\<close>

datatype path_opt = PathStr string | PathFun "nat \<Rightarrow> string"

datatype timer = TimerUndefined | TimerNull | TimerHandle nat

record File =
  encoding :: string
  delimeter :: string
  quote :: string
  escape :: string
  nullValue :: string
  eol :: string
  headers :: bool
  overwrite :: bool
  fields_map :: "(string \<times> field) list"
  flushInterval :: int
  flushLines :: int
  path :: path_opt
  lastPath :: "string option"
  buffer :: "cell list list"
  timerFlushInterval :: timer
  is_open :: bool

text \<open>
  What surrounds the object: which paths \<open>fs.existsSync\<close> finds, how often the path
  function has been called, the running interval timers, the events emitted so far and the
  \<open>fs\<close> writes dispatched so far (oldest first).
\<close>

datatype event = DataEvent string string | ErrorEvent string string string

datatype saveFunction = writeFile | appendFile

record world =
  existing :: "string set"
  path_calls :: nat
  intervals :: "nat set"
  next_timer :: nat
  emitted :: "event list"
  dispatched :: "(saveFunction \<times> string \<times> string \<times> string) list"

subsection \<open>Construction\<close>

text \<open>
  The options object maps key names to values. Each option is read at the type the code
  uses it at; what the code does with an option of another type is left open.
\<close>

datatype optval =
    OStr string
  | OBool bool
  | ONum int
  | OFields "(string \<times> field) list"
  | OFun "nat \<Rightarrow> string"

type_synonym options = "(string \<times> optval) list option"

definition getOne :: "options \<Rightarrow> string \<Rightarrow> 'a \<Rightarrow> (optval \<Rightarrow> 'a) \<Rightarrow> 'a" where
  "getOne opts name defaultValue rd =
     (case opts of
        None \<Rightarrow> defaultValue
      | Some kvs \<Rightarrow> (case map_of kvs name of None \<Rightarrow> defaultValue | Some v \<Rightarrow> rd v))"

fun str_of :: "optval \<Rightarrow> string" where
  "str_of (OStr s) = s"

fun bool_of :: "optval \<Rightarrow> bool" where
  "bool_of (OBool b) = b"

fun num_of :: "optval \<Rightarrow> int" where
  "num_of (ONum n) = n"

fun fields_of :: "optval \<Rightarrow> (string \<times> field) list" where
  "fields_of (OFields fs) = fs"

fun path_of :: "optval \<Rightarrow> path_opt option" where
  "path_of (OStr s) = Some (PathStr s)"
| "path_of (OFun g) = Some (PathFun g)"

text \<open>
  \<open>getOptions os_eol opts\<close> is \<open>_getOptions\<close>, with \<open>os_eol\<close> the platform's
  \<open>os.EOL\<close>. The private members are those of an object that \<open>_open\<close> has not
  touched yet.
\<close>

definition getOptions :: "string \<Rightarrow> options \<Rightarrow> error + File" where
  "getOptions os_eol opts =
     (case getOne opts ''path'' None path_of of
        None \<Rightarrow> Inl missing_path
      | Some p \<Rightarrow> Inr
          \<lparr> encoding = getOne opts ''encoding'' ''utf8'' str_of,
            delimeter = getOne opts ''delimeter'' '','' str_of,
            quote = getOne opts ''quote'' [CHR 0x22] str_of,
            escape = getOne opts ''escape'' [CHR 0x5C] str_of,
            nullValue = getOne opts ''nullValue'' ''NULL'' str_of,
            eol = getOne opts ''eol'' os_eol str_of,
            headers = getOne opts ''headers'' True bool_of,
            overwrite = getOne opts ''overwrite'' True bool_of,
            fields_map = getOne opts ''fields'' [] fields_of,
            flushInterval = getOne opts ''flushInterval'' 0 num_of,
            flushLines = getOne opts ''flushLines'' 0 num_of,
            path = p,
            lastPath = None,
            buffer = [],
            timerFlushInterval = TimerUndefined,
            is_open = False \<rparr>)"

definition setInterval :: "world \<Rightarrow> nat \<times> world" where
  "setInterval w =
     (next_timer w,
      w\<lparr>intervals := insert (next_timer w) (intervals w), next_timer := Suc (next_timer w)\<rparr>)"

fun clearInterval :: "timer \<Rightarrow> world \<Rightarrow> world" where
  "clearInterval (TimerHandle h) w = w\<lparr>intervals := intervals w - {h}\<rparr>"
| "clearInterval t w = w"

definition open_file :: "File \<Rightarrow> world \<Rightarrow> File \<times> world" where
  "open_file this w =
     (let this1 = this\<lparr>lastPath := None, buffer := []\<rparr>;
          (this2, w2) =
            (if flushInterval this1 > 0
             then (let (h, w1) = setInterval w in (this1\<lparr>timerFlushInterval := TimerHandle h\<rparr>, w1))
             else (this1, w))
      in (this2\<lparr>is_open := True\<rparr>, w2))"

definition new_File :: "string \<Rightarrow> options \<Rightarrow> world \<Rightarrow> error + File \<times> world" where
  "new_File os_eol opts w =
     (case getOptions os_eol opts of
        Inl e \<Rightarrow> Inl e
      | Inr this \<Rightarrow> Inr (open_file this w))"

subsection \<open>Private helpers\<close>

text \<open>An operation returns \<open>None\<close> when it returns, and the exception when it throws;
  either way with the object and its surroundings as it leaves them.\<close>

type_synonym outcome = "error option \<times> File \<times> world"

definition requireOpen :: "File \<Rightarrow> error option" where
  "requireOpen this = (if \<not> is_open this then Some file_not_open else None)"

definition getPath :: "File \<Rightarrow> world \<Rightarrow> string \<times> world" where
  "getPath this w =
     (case path this of
        PathStr p \<Rightarrow> (p, w)
      | PathFun g \<Rightarrow> (g (path_calls w), w\<lparr>path_calls := Suc (path_calls w)\<rparr>))"

definition autodetectFields :: "File \<Rightarrow> string list \<Rightarrow> File" where
  "autodetectFields this names =
     fold (\<lambda>name that.
             if read_property (fields_map that) name \<noteq> Missing then that
             else that\<lparr>fields_map := insert_key name \<lparr>quoted = True\<rparr> (fields_map that)\<rparr>)
          names this"

text \<open>
  \<open>add\<close> calls \<open>_buildLinedata\<close> only with a value whose \<open>typeof\<close> is
  \<open>'object'\<close>: an array, a plain object or null. \<open>Object.keys\<close> throws on null
  and undefined. The other values are left open.
\<close>

fun buildLinedata :: "File \<Rightarrow> jsval \<Rightarrow> error + cell list \<times> File" where
  "buildLinedata this (JArr xs) = Inr (map Val xs, this)"
| "buildLinedata this (JObj kvs) =
     (let that = autodetectFields this (keys kvs)
      in Inr (map (get kvs) (keys (fields_map that)), that))"
| "buildLinedata this JNull = Inl TypeError"
| "buildLinedata this JUndefined = Inl TypeError"

definition enquote :: "File \<Rightarrow> cell \<Rightarrow> error + string" where
  "enquote this c =
     (if c = Val JUndefined \<or> c = Val JNull then Inl TypeError
      else if (case c of Val (JObj kvs) \<Rightarrow> map_of kvs ''toString'' = Some JUndefined
                       | _ \<Rightarrow> False)
      then Inl not_a_string
      else (case cell_toString c of
              Inl e \<Rightarrow> Inl e
            | Inr s \<Rightarrow> Inr (quote this @ js_replace s (quote this) (escape this @ quote this)
                             @ quote this)))"

definition generateCsvHeaders :: "File \<Rightarrow> error + string" where
  "generateCsvHeaders this =
     (case sequence (map (\<lambda>v. enquote this (Val (JStr v))) (keys (fields_map this))) of
        Inl e \<Rightarrow> Inl e
      | Inr cells \<Rightarrow> Inr (join_strings (delimeter this) cells @ eol this))"

text \<open>
  One cell of a line: the callback of \<open>lineData.map\<close> in \<open>_generateCsvData\<close>.
  Beyond the last column \<open>fieldIndices[index]\<close> is undefined, and the read
  \<open>this.fields[undefined]\<close> is that of the property named \<open>undefined\<close>.
\<close>

definition csv_cell :: "File \<Rightarrow> string list \<Rightarrow> nat \<times> cell \<Rightarrow> error + cell" where
  "csv_cell this fieldIndices iv =
     (case iv of (index, c) \<Rightarrow>
        if c = Val JUndefined \<or> c = Val JNull then Inr (Val (JStr (nullValue this)))
        else (case read_property (fields_map this)
                     (if index < length fieldIndices then fieldIndices ! index
                      else ''undefined'') of
                Missing \<Rightarrow> Inl TypeError
              | Inherited \<Rightarrow> Inr c
              | Own field \<Rightarrow>
                  if quoted field
                  then (case enquote this c of Inl e \<Rightarrow> Inl e | Inr s \<Rightarrow> Inr (Val (JStr s)))
                  else Inr c))"

definition csv_line :: "File \<Rightarrow> string list \<Rightarrow> cell list \<Rightarrow> error + string" where
  "csv_line this fieldIndices lineData =
     (case sequence (map (csv_cell this fieldIndices) (zip [0..<length lineData] lineData)) of
        Inl e \<Rightarrow> Inl e
      | Inr line \<Rightarrow>
          (case js_join (delimeter this)
                  (line @ replicate (length fieldIndices - length line)
                            (Val (JStr (nullValue this)))) of
             Inl e \<Rightarrow> Inl e
           | Inr s \<Rightarrow> Inr (s @ eol this)))"

definition generateCsvData :: "File \<Rightarrow> error + string" where
  "generateCsvData this =
     (let fieldIndices = keys (fields_map this)
      in case sequence (map (csv_line this fieldIndices) (buffer this)) of
           Inl e \<Rightarrow> Inl e
         | Inr ls \<Rightarrow> Inr (concat ls))"

subsection \<open>flush, add, complete\<close>

definition flush :: "File \<Rightarrow> world \<Rightarrow> outcome" where
  "flush this w =
     (case requireOpen this of
        Some e \<Rightarrow> (Some e, this, w)
      | None \<Rightarrow>
          if length (buffer this) = 0 then (None, this, w)
          else
            (case getPath this w of (p, w1) \<Rightarrow>
               (case (if headers this \<and> lastPath this \<noteq> Some p
                         \<and> (overwrite this \<or> p \<in> existing w1)
                      then generateCsvHeaders this else Inr []) of
                  Inl e \<Rightarrow> (Some e, this, w1)
                | Inr h \<Rightarrow>
                    (case generateCsvData this of
                       Inl e \<Rightarrow> (Some e, this, w1)
                     | Inr d \<Rightarrow>
                         (let csv = h @ d;
                              this1 = this\<lparr>buffer := []\<rparr>;
                              w2 = w1\<lparr>emitted := emitted w1 @ [DataEvent p csv]\<rparr>;
                              save = (if overwrite this1 \<and> lastPath this1 \<noteq> Some p
                                      then writeFile else appendFile);
                              w3 = w2\<lparr>dispatched := dispatched w2 @ [(save, p, csv, encoding this1)]\<rparr>
                          in (None, this1\<lparr>lastPath := Some p\<rparr>, w3))))))"

text \<open>
  The callback of the dispatched write, run when the oldest outstanding write ends with
  \<open>err\<close> (\<open>None\<close> for success). It reaches the surroundings only: a successful write
  leaves its file behind, a failed one is reported by an error event.
\<close>

definition write_done :: "string option \<Rightarrow> world \<Rightarrow> world" where
  "write_done err w =
     (case dispatched w of
        [] \<Rightarrow> w
      | (save, p, csv, enc) # rest \<Rightarrow>
          (case err of
             None \<Rightarrow> w\<lparr>dispatched := rest, existing := insert p (existing w)\<rparr>
           | Some e \<Rightarrow> w\<lparr>dispatched := rest, emitted := emitted w @ [ErrorEvent e p csv]\<rparr>))"

definition add :: "File \<Rightarrow> world \<Rightarrow> jsval \<Rightarrow> outcome" where
  "add this w data =
     (case requireOpen this of
        Some e \<Rightarrow> (Some e, this, w)
      | None \<Rightarrow>
          if typeof data \<noteq> ''object'' then (Some invalid_data, this, w)
          else
            (case buildLinedata this data of
               Inl e \<Rightarrow> (Some e, this, w)
             | Inr (row, that) \<Rightarrow>
                 (let this1 = that\<lparr>buffer := buffer that @ [row]\<rparr>
                  in if flushLines this1 > 0 \<and> int (length (buffer this1)) > flushLines this1
                     then flush this1 w
                     else if flushLines this1 = 0 \<and> flushInterval this1 = 0
                     then flush this1 w
                     else (None, this1, w))))"

definition complete :: "File \<Rightarrow> world \<Rightarrow> outcome" where
  "complete this w =
     (case requireOpen this of
        Some e \<Rightarrow> (Some e, this, w)
      | None \<Rightarrow>
          (case (if timerFlushInterval this \<noteq> TimerNull
                 then (this\<lparr>timerFlushInterval := TimerNull\<rparr>,
                       clearInterval (timerFlushInterval this) w)
                 else (this, w)) of
             (this1, w1) \<Rightarrow>
               (case flush this1 w1 of
                  (Some e, this2, w2) \<Rightarrow> (Some e, this2, w2)
                | (None, this2, w2) \<Rightarrow> (None, this2\<lparr>is_open := False\<rparr>, w2))))"

text \<open>A run of \<open>add\<close> calls, one per row, which ends at the first call that throws.\<close>

fun add_all :: "File \<Rightarrow> world \<Rightarrow> jsval list \<Rightarrow> outcome" where
  "add_all this w [] = (None, this, w)"
| "add_all this w (r # rs) =
     (case add this w r of
        (Some e, this1, w1) \<Rightarrow> (Some e, this1, w1)
      | (None, this1, w1) \<Rightarrow> add_all this1 w1 rs)"

section \<open>Example objects\<close>

text \<open>
  A file built with \<open>flushLines = 2\<close> and otherwise default options on a platform whose
  line terminator is a line feed, rows with the single column \<open>Name\<close>, and the states
  the file passes through.
\<close>

definition line_feed :: string where
  "line_feed = [CHR 0x0A]"

definition empty_world :: world where
  "empty_world =
     \<lparr>existing = {}, path_calls = 0, intervals = {}, next_timer = 0, emitted = [],
      dispatched = []\<rparr>"

definition names_options :: options where
  "names_options = Some [(''flushLines'', ONum 2), (''path'', OStr ''names.csv'')]"

definition names_file :: File where
  "names_file =
     \<lparr>encoding = ''utf8'', delimeter = '','', quote = [CHR 0x22], escape = [CHR 0x5C],
      nullValue = ''NULL'', eol = line_feed, headers = True, overwrite = True, fields_map = [],
      flushInterval = 0, flushLines = 2, path = PathStr ''names.csv'', lastPath = None,
      buffer = [], timerFlushInterval = TimerUndefined, is_open = True\<rparr>"

definition name_row :: "string \<Rightarrow> jsval" where
  "name_row s = JObj [(''Name'', JStr s)]"

definition names_file_AB :: File where
  "names_file_AB =
     names_file\<lparr>fields_map := [(''Name'', \<lparr>quoted = True\<rparr>)],
                buffer := [[Val (JStr ''A'')], [Val (JStr ''B'')]]\<rparr>"

definition csv_AB :: string where
  "csv_AB = concat [[CHR 0x22], ''Name'', [CHR 0x22], line_feed,
                    [CHR 0x22], ''A'', [CHR 0x22], line_feed,
                    [CHR 0x22], ''B'', [CHR 0x22], line_feed]"

definition names_file_flushed :: File where
  "names_file_flushed = names_file_AB\<lparr>buffer := [], lastPath := Some ''names.csv''\<rparr>"

definition names_world_flushed :: world where
  "names_world_flushed =
     empty_world\<lparr>emitted := [DataEvent ''names.csv'' csv_AB],
                 dispatched := [(writeFile, ''names.csv'', csv_AB, ''utf8'')]\<rparr>"

definition csv_C :: string where
  "csv_C = concat [[CHR 0x22], ''C'', [CHR 0x22], line_feed]"

definition names_file_C :: File where
  "names_file_C = names_file_flushed\<lparr>buffer := [[Val (JStr ''C'')]]\<rparr>"

definition failed_world :: world where
  "failed_world = write_done (Some ''EACCES'') names_world_flushed"

definition timed_options :: options where
  "timed_options = Some [(''flushInterval'', ONum 1000), (''path'', OStr ''names.csv'')]"

definition timed_file :: File where
  "timed_file = names_file\<lparr>flushInterval := 1000, flushLines := 0,
                             timerFlushInterval := TimerHandle 0\<rparr>"

definition timed_world :: world where
  "timed_world = empty_world\<lparr>intervals := {0}, next_timer := 1\<rparr>"

definition timed_file_A :: File where
  "timed_file_A = timed_file\<lparr>fields_map := [(''Name'', \<lparr>quoted = True\<rparr>)],
                               buffer := [[Val (JStr ''A'')]]\<rparr>"

definition csv_A :: string where
  "csv_A = concat [[CHR 0x22], ''Name'', [CHR 0x22], line_feed,
                   [CHR 0x22], ''A'', [CHR 0x22], line_feed]"

definition timed_file_closed :: File where
  "timed_file_closed =
     timed_file_A\<lparr>timerFlushInterval := TimerNull, buffer := [],
                   lastPath := Some ''names.csv'', is_open := False\<rparr>"

definition timed_world_closed :: world where
  "timed_world_closed =
     timed_world\<lparr>intervals := {}, emitted := [DataEvent ''names.csv'' csv_A],
                 dispatched := [(writeFile, ''names.csv'', csv_A, ''utf8'')]\<rparr>"



definition semicolon_options :: options where
  "semicolon_options = Some [(''delimiter'', OStr '';''), (''path'', OStr ''names.csv'')]"

definition semicolon_file :: File where
  "semicolon_file = names_file\<lparr>flushLines := 0\<rparr>"

definition pair_row :: jsval where
  "pair_row = JObj [(''a'', JNum 1), (''b'', JNum 2)]"

definition csv_pair :: string where
  "csv_pair = concat [[CHR 0x22], ''a'', [CHR 0x22], '','', [CHR 0x22], ''b'', [CHR 0x22], line_feed,
                      [CHR 0x22], ''1'', [CHR 0x22], '','', [CHR 0x22], ''2'', [CHR 0x22], line_feed]"

definition semicolon_file_flushed :: File where
  "semicolon_file_flushed =
     semicolon_file\<lparr>fields_map := [(''a'', \<lparr>quoted = True\<rparr>), (''b'', \<lparr>quoted = True\<rparr>)],
                     lastPath := Some ''names.csv''\<rparr>"

definition semicolon_world :: world where
  "semicolon_world =
     empty_world\<lparr>emitted := [DataEvent ''names.csv'' csv_pair],
                 dispatched := [(writeFile, ''names.csv'', csv_pair, ''utf8'')]\<rparr>"

definition csv_ABC :: string where
  "csv_ABC = concat [[CHR 0x22], ''Name'', [CHR 0x22], line_feed,
                     [CHR 0x22], ''A'', [CHR 0x22], line_feed,
                     [CHR 0x22], ''B'', [CHR 0x22], line_feed,
                     [CHR 0x22], ''C'', [CHR 0x22], line_feed]"

definition names_world_ABC :: world where
  "names_world_ABC =
     empty_world\<lparr>emitted := [DataEvent ''names.csv'' csv_ABC],
                 dispatched := [(writeFile, ''names.csv'', csv_ABC, ''utf8'')]\<rparr>"

definition quoted_line :: "string \<Rightarrow> string \<Rightarrow> string" where
  "quoted_line terminator s = [CHR 0x22] @ s @ [CHR 0x22] @ terminator"

definition delimeter_options :: options where
  "delimeter_options = Some [(''delimeter'', OStr '';''), (''path'', OStr ''names.csv'')]"










section \<open>Basic facts\<close>

lemma sequence_map_Inr:
  "(\<And>x. x \<in> set xs \<Longrightarrow> f x = Inr (g x)) \<Longrightarrow> sequence (map f xs) = Inr (map g xs)"
  by (induction xs) auto

lemma enquote_JStr:
  "enquote this (Val (JStr s)) =
     Inr (quote this @ js_replace s (quote this) (escape this @ quote this) @ quote this)"
  by (simp add: enquote_def)

text \<open>Column names are strings, so the header line never throws.\<close>

lemma generateCsvHeaders_returns:
  "generateCsvHeaders this =
     Inr (join_strings (delimeter this)
            (map (\<lambda>v. quote this @ js_replace v (quote this) (escape this @ quote this)
                        @ quote this)
               (keys (fields_map this))) @ eol this)"
  by (simp add: generateCsvHeaders_def enquote_JStr
      sequence_map_Inr [where g = "\<lambda>v. quote this @ js_replace v (quote this)
        (escape this @ quote this) @ quote this"])

lemma getPath_world:
  "getPath this w = (p, w1) \<Longrightarrow>
     existing w1 = existing w \<and> emitted w1 = emitted w \<and> dispatched w1 = dispatched w
     \<and> intervals w1 = intervals w"
  by (auto simp: getPath_def split: path_opt.splits)

lemma flush_closed: "\<not> is_open this \<Longrightarrow> flush this w = (Some file_not_open, this, w)"
  by (simp add: flush_def requireOpen_def)

lemma flush_empty: "is_open this \<Longrightarrow> buffer this = [] \<Longrightarrow> flush this w = (None, this, w)"
  by (simp add: flush_def requireOpen_def)

lemma flush_nonempty:
  assumes "is_open this" and "buffer this \<noteq> []" and "getPath this w = (p, w1)"
  shows "flush this w =
    (case generateCsvData this of
       Inl e \<Rightarrow> (Some e, this, w1)
     | Inr d \<Rightarrow>
        (let csv = (if headers this \<and> lastPath this \<noteq> Some p
                       \<and> (overwrite this \<or> p \<in> existing w1)
                    then projr (generateCsvHeaders this) else []) @ d
         in (None, this\<lparr>buffer := [], lastPath := Some p\<rparr>,
             w1\<lparr>emitted := emitted w1 @ [DataEvent p csv],
                dispatched := dispatched w1 @
                  [(if overwrite this \<and> lastPath this \<noteq> Some p then writeFile else appendFile,
                    p, csv, encoding this)]\<rparr>)))"
  using assms
  by (auto simp: flush_def requireOpen_def generateCsvHeaders_returns Let_def split: sum.splits)

lemma flush_returns_open:
  "flush this w = (None, this', w') \<Longrightarrow> is_open this"
  by (auto simp: flush_def requireOpen_def split: if_splits)





lemma complete_closed: "\<not> is_open this \<Longrightarrow> complete this w = (Some file_not_open, this, w)"
  by (simp add: complete_def requireOpen_def)


subsection \<open>Schema inference\<close>



lemma autodetectFields_Nil: "autodetectFields this [] = this"
  by (simp add: autodetectFields_def)

lemma autodetectFields_Cons:
  "autodetectFields this (name # names) =
     autodetectFields
       (if read_property (fields_map this) name \<noteq> Missing then this
        else this\<lparr>fields_map := insert_key name \<lparr>quoted = True\<rparr> (fields_map this)\<rparr>) names"
  by (simp add: autodetectFields_def)

lemma autodetectFields_frame:
  "autodetectFields this names = this\<lparr>fields_map := fields_map (autodetectFields this names)\<rparr>"
proof (induction names arbitrary: this)
  case Nil
  show ?case by (simp add: autodetectFields_Nil)
next
  case (Cons name names)
  show ?case
    by (subst (1 2) autodetectFields_Cons, subst (1 2) Cons.IH) simp
qed




subsection \<open>Replacing the first occurrence\<close>









subsection \<open>Rendering and the separator\<close>

lemma add_all_append:
  "add_all this w (rs @ [r]) =
     (case add_all this w rs of
        (Some e, this1, w1) \<Rightarrow> (Some e, this1, w1)
      | (None, this1, w1) \<Rightarrow> add this1 w1 r)"
proof (induction rs arbitrary: this w)
  case Nil
  show ?case by (cases "add this w r" rule: prod_cases3) (auto split: option.splits)
next
  case (Cons a rs)
  show ?case
    by (cases "add this w a" rule: prod_cases3) (auto simp: Cons.IH split: option.splits)
qed

lemma sequence_length: "sequence rs = Inr xs \<Longrightarrow> length xs = length rs"
  by (induction rs arbitrary: xs) (auto split: sum.splits)

lemma flush_delimeter: "flush this w = (r, this', w') \<Longrightarrow> delimeter this' = delimeter this"
  by (auto simp: flush_def requireOpen_def Let_def split: if_splits sum.splits prod.splits)

lemma autodetectFields_delimeter: "delimeter (autodetectFields this names) = delimeter this"
  by (subst autodetectFields_frame) simp

lemma buildLinedata_delimeter:
  "typeof d = ''object'' \<Longrightarrow> buildLinedata this d = Inr (row, that) \<Longrightarrow>
     delimeter that = delimeter this"
  by (cases d) (auto simp: autodetectFields_delimeter Let_def)

lemma add_delimeter: "add this w d = (r, this', w') \<Longrightarrow> delimeter this' = delimeter this"
proof (cases "is_open this \<and> typeof d = ''object''")
  case False
  assume "add this w d = (r, this', w')"
  with False show ?thesis by (auto simp: add_def requireOpen_def split: if_splits)
next
  case True
  assume a: "add this w d = (r, this', w')"
  show ?thesis
  proof (cases "buildLinedata this d")
    case (Inl e)
    with a True show ?thesis by (simp add: add_def requireOpen_def)
  next
    case (Inr rt)
    obtain row that where rt: "rt = (row, that)" by (cases rt)
    from True Inr rt have "typeof d = ''object''" and "buildLinedata this d = Inr (row, that)"
      by simp_all
    then have d: "delimeter that = delimeter this" by (rule buildLinedata_delimeter)
    from a True Inr rt
    have "flush (that\<lparr>buffer := buffer that @ [row]\<rparr>) w = (r, this', w')
          \<or> (r, this', w') = (None, that\<lparr>buffer := buffer that @ [row]\<rparr>, w)"
      by (auto simp: add_def requireOpen_def Let_def split: if_splits)
    then show ?thesis using d flush_delimeter by fastforce
  qed
qed

lemma complete_delimeter:
  "complete this w = (r, this', w') \<Longrightarrow> delimeter this' = delimeter this"
proof -
  assume c: "complete this w = (r, this', w')"
  show ?thesis
  proof (cases "is_open this")
    case False
    with c show ?thesis by (simp add: complete_closed)
  next
    case True
    define t0 where "t0 = (if timerFlushInterval this \<noteq> TimerNull
                           then this\<lparr>timerFlushInterval := TimerNull\<rparr> else this)"
    define w0 where "w0 = (if timerFlushInterval this \<noteq> TimerNull
                           then clearInterval (timerFlushInterval this) w else w)"
    obtain r1 t1 w1 where f: "flush t0 w0 = (r1, t1, w1)" by (cases "flush t0 w0") auto
    have "delimeter t0 = delimeter this" by (simp add: t0_def)
    with flush_delimeter [OF f] have "delimeter t1 = delimeter this" by simp
    moreover from c True f have "delimeter this' = delimeter t1"
      by (cases r1) (auto simp: complete_def requireOpen_def t0_def w0_def split: if_splits)
    ultimately show ?thesis by simp
  qed
qed

lemma csv_line_cells:
  assumes "csv_line that idx row = Inr l"
  shows "\<exists>line cells.
           sequence (map (csv_cell that idx) (zip [0..<length row] row)) = Inr line
           \<and> sequence (map element_text
                 (line @ replicate (length idx - length line) (Val (JStr (nullValue that)))))
               = Inr cells
           \<and> length cells = max (length row) (length idx)
           \<and> l = join_strings (delimeter that) cells @ eol that"
proof -
  from assms obtain line where
    s: "sequence (map (csv_cell that idx) (zip [0..<length row] row)) = Inr line"
    by (auto simp: csv_line_def split: sum.splits)
  from assms s obtain cells where
    c: "sequence (map element_text
          (line @ replicate (length idx - length line) (Val (JStr (nullValue that))))) = Inr cells"
    and l: "l = join_strings (delimeter that) cells @ eol that"
    by (auto simp: csv_line_def js_join_def split: sum.splits)
  from sequence_length [OF s] have "length line = length row" by simp
  with sequence_length [OF c] have "length cells = max (length row) (length idx)" by simp
  with s c l show ?thesis by blast
qed

subsection \<open>Adding below the threshold\<close>







subsection \<open>The example file, evaluated\<close>

lemma new_names_file:
  "new_File line_feed names_options empty_world = Inr (names_file, empty_world)"
  by (simp add: names_file_def new_File_def getOptions_def getOne_def names_options_def
      open_file_def Let_def)

lemma array_index_Name: "array_index ''Name'' = None"
  by (simp add: array_index_def is_digit_def)

lemma names_AB:
  "add_all names_file empty_world [name_row ''A'', name_row ''B'']
     = (None, names_file_AB, empty_world)"
  by (simp add: names_file_def names_file_AB_def add_def requireOpen_def name_row_def keys_def get_def read_property_def object_prototype_def autodetectFields_def array_index_Name Let_def)

lemma getPath_AB: "getPath names_file_AB empty_world = (''names.csv'', empty_world)"
  by (simp add: getPath_def names_file_AB_def names_file_def)

lemma data_AB:
  "generateCsvData names_file_AB
     = Inr (concat [[CHR 0x22], ''A'', [CHR 0x22], line_feed, [CHR 0x22], ''B'', [CHR 0x22],
                    line_feed])"
  by (simp add: generateCsvData_def names_file_AB_def names_file_def csv_line_def csv_cell_def read_property_def element_text_def
      keys_def enquote_def js_replace_def js_join_def Let_def)

lemma flush_AB:
  "flush names_file_AB empty_world = (None, names_file_flushed, names_world_flushed)"
  by (simp add: flush_def requireOpen_def getPath_AB data_AB generateCsvHeaders_returns)
     (simp add: names_file_AB_def names_file_def names_file_flushed_def names_world_flushed_def
      empty_world_def csv_AB_def keys_def js_replace_def Let_def)

lemma failed_world_eq:
  "failed_world = empty_world\<lparr>emitted := [DataEvent ''names.csv'' csv_AB,
                                           ErrorEvent ''EACCES'' ''names.csv'' csv_AB]\<rparr>"
  by (simp add: failed_world_def write_done_def names_world_flushed_def empty_world_def)

lemma getPath_C: "getPath names_file_C failed_world = (''names.csv'', failed_world)"
  by (simp add: getPath_def names_file_C_def names_file_flushed_def names_file_AB_def names_file_def)

lemma data_C: "generateCsvData names_file_C = Inr csv_C"
  by (simp add: generateCsvData_def names_file_C_def names_file_flushed_def names_file_AB_def
      names_file_def csv_line_def csv_cell_def read_property_def element_text_def keys_def enquote_def js_replace_def js_join_def
      csv_C_def Let_def)

lemma new_timed_file:
  "new_File line_feed timed_options empty_world = Inr (timed_file, timed_world)"
  by (simp add: timed_file_def timed_world_def names_file_def new_File_def getOptions_def
      getOne_def timed_options_def open_file_def setInterval_def empty_world_def Let_def)

lemma add_timed_A: "add timed_file timed_world (name_row ''A'') = (None, timed_file_A, timed_world)"
  by (simp add: timed_file_def timed_file_A_def names_file_def add_def requireOpen_def
      name_row_def keys_def get_def read_property_def object_prototype_def autodetectFields_def array_index_Name Let_def)


lemma new_semicolon_file:
  "new_File line_feed semicolon_options empty_world = Inr (semicolon_file, empty_world)"
  by (simp add: semicolon_file_def names_file_def new_File_def getOptions_def getOne_def
      semicolon_options_def open_file_def Let_def)

lemma array_index_a: "array_index ''a'' = None" and array_index_b: "array_index ''b'' = None"
  by (simp_all add: array_index_def is_digit_def)

lemma number_text_digit: "0 \<le> n \<Longrightarrow> n < 10 \<Longrightarrow> number_text n = [digit_char n]"
  by (subst number_text.simps) simp

lemma digit_char_1: "digit_char 1 = CHR ''1''" and digit_char_2: "digit_char 2 = CHR ''2''"
  by code_simp+

lemma add_pair_row:
  "add semicolon_file empty_world pair_row = (None, semicolon_file_flushed, semicolon_world)"
  by (simp add: add_def requireOpen_def pair_row_def keys_def get_def read_property_def object_prototype_def
      autodetectFields_def array_index_a array_index_b semicolon_file_def names_file_def
      flush_def getPath_def generateCsvHeaders_returns generateCsvData_def csv_line_def
      csv_cell_def read_property_def element_text_def enquote_def js_replace_def js_join_def number_toString_def number_text_digit
      digit_char_1 digit_char_2 semicolon_file_flushed_def semicolon_world_def csv_pair_def empty_world_def
      Let_def)

lemma add_C:
  "add names_file_AB empty_world (name_row ''C'') = (None, names_file_flushed, names_world_ABC)"
  by (simp add: add_def requireOpen_def name_row_def keys_def get_def read_property_def object_prototype_def
      autodetectFields_def names_file_AB_def names_file_def
      flush_def getPath_def generateCsvHeaders_returns generateCsvData_def csv_line_def
      csv_cell_def read_property_def element_text_def enquote_def js_replace_def js_join_def
      names_file_flushed_def names_world_ABC_def csv_ABC_def empty_world_def Let_def)

lemma new_delimeter_file:
  "new_File line_feed delimeter_options empty_world
     = Inr (names_file\<lparr>delimeter := '';'', flushLines := 0\<rparr>, empty_world)"
  by (simp add: names_file_def new_File_def getOptions_def getOne_def
      delimeter_options_def open_file_def Let_def)

lemma add_all_ABC:
  "add_all names_file empty_world [name_row ''A'', name_row ''B'', name_row ''C'']
     = (None, names_file_flushed, names_world_ABC)"
proof -
  have "add_all names_file empty_world ([name_row ''A'', name_row ''B''] @ [name_row ''C''])
       = (None, names_file_flushed, names_world_ABC)"
    by (simp only: add_all_append names_AB add_C prod.case option.case)
  then show ?thesis by simp
qed





section \<open>Header emission\<close>

text \<open>
  C1. When \<open>flush\<close> is called on an open file with a non-empty buffer and the path
  resolves to \<open>p\<close>, the text it emits and writes is the rendered rows, with the header
  line in front exactly when the \<open>headers\<close> option is on, \<open>p\<close> differs from the
  last-written path, and the \<open>overwrite\<close> option is on or \<open>p\<close> exists in storage.
  The header line itself always renders; when a row does not, \<open>flush\<close> throws and
  emits nothing.
\<close>

theorem flush_header_rule:
  assumes "is_open this" and "buffer this \<noteq> []" and "getPath this w = (p, w1)"
  shows "\<exists>h. generateCsvHeaders this = Inr h \<and>
    (case generateCsvData this of
       Inl e \<Rightarrow> flush this w = (Some e, this, w1)
     | Inr d \<Rightarrow>
        (\<exists>this' w'. flush this w = (None, this', w') \<and>
           emitted w' = emitted w @
             [DataEvent p (if headers this \<and> lastPath this \<noteq> Some p
                               \<and> (overwrite this \<or> p \<in> existing w)
                           then h @ d else d)]))"
  using assms getPath_world [OF assms(3)]
  by (auto simp: flush_def requireOpen_def generateCsvHeaders_returns Let_def split: sum.splits)

theorem flush_header_rule_witness:
  "is_open names_file_AB \<and> buffer names_file_AB \<noteq> []
   \<and> getPath names_file_AB empty_world = (''names.csv'', empty_world)
   \<and> lastPath names_file_AB \<noteq> Some ''names.csv''
   \<and> flush names_file_AB empty_world = (None, names_file_flushed, names_world_flushed)
   \<and> emitted names_world_flushed = [DataEvent ''names.csv'' csv_AB]"
proof -
  have o: "is_open names_file_AB" and b: "buffer names_file_AB \<noteq> []"
    and l: "lastPath names_file_AB \<noteq> Some ''names.csv''"
    by (simp_all add: names_file_AB_def names_file_def)
  have e: "emitted names_world_flushed = [DataEvent ''names.csv'' csv_AB]"
    by (simp add: names_world_flushed_def)
  from flush_header_rule [OF o b getPath_AB] o b l e getPath_AB flush_AB show ?thesis
    by simp
qed

section \<open>What flush leaves alone\<close>

text \<open>
  C10. \<open>flush\<close> changes no member of the object other than the row buffer and the
  last-written path: the field schema and every option stay as they were. When it returns the
  buffer is empty; when it throws the object is untouched and nothing was emitted or
  written. On an empty buffer neither the object nor its surroundings change.
\<close>

theorem flush_frame:
  assumes "flush this w = (r, this', w')"
  shows "this' = this\<lparr>buffer := buffer this', lastPath := lastPath this'\<rparr>
       \<and> (r = None \<longrightarrow> buffer this' = [])
       \<and> (r \<noteq> None \<longrightarrow> this' = this \<and> emitted w' = emitted w \<and> dispatched w' = dispatched w)
       \<and> (buffer this = [] \<longrightarrow> this' = this \<and> w' = w)"
proof (cases "is_open this")
  case False
  with assms show ?thesis by (auto simp: flush_closed)
next
  case True
  show ?thesis
  proof (cases "buffer this = []")
    case True
    with \<open>is_open this\<close> assms show ?thesis by (auto simp: flush_empty)
  next
    case False
    obtain p w1 where gp: "getPath this w = (p, w1)" by (cases "getPath this w")
    from getPath_world [OF gp] assms False show ?thesis
      unfolding flush_nonempty [OF True False gp]
      by (cases "generateCsvData this") (auto simp: Let_def)
  qed
qed

theorem flush_frame_witness:
  "flush names_file_AB empty_world = (None, names_file_flushed, names_world_flushed)
   \<and> names_file_flushed = names_file_AB\<lparr>buffer := [], lastPath := Some ''names.csv''\<rparr>
   \<and> fields_map names_file_flushed = fields_map names_file_AB
   \<and> flush names_file_flushed names_world_flushed = (None, names_file_flushed, names_world_flushed)
   \<and> flush timed_file_closed timed_world_closed
       = (Some file_not_open, timed_file_closed, timed_world_closed)"
proof -
  have e: "flush names_file_flushed names_world_flushed
             = (None, names_file_flushed, names_world_flushed)"
    by (simp add: flush_empty names_file_flushed_def names_file_AB_def names_file_def)
  have c: "flush timed_file_closed timed_world_closed
             = (Some file_not_open, timed_file_closed, timed_world_closed)"
    by (simp add: flush_closed timed_file_closed_def)
  have a: "names_file_flushed = names_file_AB\<lparr>buffer := [], lastPath := Some ''names.csv''\<rparr>"
    and f: "fields_map names_file_flushed = fields_map names_file_AB"
    by (simp_all add: names_file_flushed_def)
  from flush_frame [OF flush_AB] flush_frame [OF e] flush_frame [OF c] flush_AB e c a f
  show ?thesis
    by - (intro conjI; assumption)
qed

section \<open>The last-written path\<close>

text \<open>
  C7. A \<open>flush\<close> that dispatches a write leaves the path it resolved as the
  last-written path, before any answer from storage. The callback of the write does not reach
  the object, so whatever becomes of the write (its surroundings afterwards are arbitrary
  here), the next flush to this path finds it already seen: it emits no header and
  appends.
\<close>

theorem lastPath_recorded:
  assumes "flush this w = (None, this', w')" and "buffer this \<noteq> []"
    and "getPath this w = (p, w1)"
  shows "lastPath this' = Some p
    \<and> (\<exists>save csv. dispatched w' = dispatched w @ [(save, p, csv, encoding this)])
    \<and> (\<forall>that wn w2 d.
          lastPath that = lastPath this' \<and> is_open that \<and> buffer that \<noteq> []
          \<and> getPath that wn = (p, w2) \<and> generateCsvData that = Inr d \<longrightarrow>
          flush that wn =
            (None, that\<lparr>buffer := [], lastPath := Some p\<rparr>,
             w2\<lparr>emitted := emitted w2 @ [DataEvent p d],
                dispatched := dispatched w2 @ [(appendFile, p, d, encoding that)]\<rparr>))"
proof -
  have o: "is_open this" using assms(1) by (rule flush_returns_open)
  from assms(1) getPath_world [OF assms(3)]
  have l: "lastPath this' = Some p"
    and d: "\<exists>save csv. dispatched w' = dispatched w @ [(save, p, csv, encoding this)]"
    unfolding flush_nonempty [OF o assms(2,3)]
    by (cases "generateCsvData this"; auto simp: Let_def)+
  have "flush that wn =
            (None, that\<lparr>buffer := [], lastPath := Some p\<rparr>,
             w2\<lparr>emitted := emitted w2 @ [DataEvent p d],
                dispatched := dispatched w2 @ [(appendFile, p, d, encoding that)]\<rparr>)"
    if "lastPath that = lastPath this'" "is_open that" "buffer that \<noteq> []"
       "getPath that wn = (p, w2)" "generateCsvData that = Inr d" for that wn w2 d
    using that l by (simp add: flush_nonempty [OF that(2,3,4)])
  with l d show ?thesis by blast
qed

text \<open>The write of the first flush fails; the second flush has no header and appends.\<close>

theorem lastPath_recorded_witness:
  "flush names_file_AB empty_world = (None, names_file_flushed, names_world_flushed)
   \<and> buffer names_file_AB \<noteq> []
   \<and> lastPath names_file_flushed = Some ''names.csv''
   \<and> flush names_file_C failed_world =
        (None, names_file_C\<lparr>buffer := [], lastPath := Some ''names.csv''\<rparr>,
         failed_world\<lparr>emitted := emitted failed_world @ [DataEvent ''names.csv'' csv_C],
                      dispatched := dispatched failed_world
                                      @ [(appendFile, ''names.csv'', csv_C, ''utf8'')]\<rparr>)"
proof -
  have b: "buffer names_file_AB \<noteq> []" by (simp add: names_file_AB_def names_file_def)
  have c: "lastPath names_file_C = lastPath names_file_flushed" "is_open names_file_C"
    "buffer names_file_C \<noteq> []" "encoding names_file_C = ''utf8''"
    by (simp_all add: names_file_C_def names_file_flushed_def names_file_AB_def names_file_def)
  note r = lastPath_recorded [OF flush_AB b getPath_AB]
  from r have l: "lastPath names_file_flushed = Some ''names.csv''" by (rule conjunct1)
  from r c getPath_C data_C
  have "flush names_file_C failed_world =
        (None, names_file_C\<lparr>buffer := [], lastPath := Some ''names.csv''\<rparr>,
         failed_world\<lparr>emitted := emitted failed_world @ [DataEvent ''names.csv'' csv_C],
                      dispatched := dispatched failed_world
                                      @ [(appendFile, ''names.csv'', csv_C, encoding names_file_C)]\<rparr>)"
    by blast
  with flush_AB b l c(4) show ?thesis by simp
qed

section \<open>Lifecycle\<close>





section \<open>Quoted cells\<close>




section \<open>Rows that add rejects\<close>

text \<open>
  C5. For \<open>null\<close> the test \<open>typeof data !== 'object'\<close> does not fire, because
  \<open>typeof null\<close> is \<open>'object'\<close>; \<open>Object.keys(null)\<close> then throws a
  TypeError and nothing is buffered. Undefined and scalar rows are rejected with
  \<open>invalid_data\<close>.
\<close>

theorem add_null_TypeError:
  "new_File line_feed names_options empty_world = Inr (names_file, empty_world)
   \<and> typeof JNull = ''object''
   \<and> add names_file empty_world JNull = (Some TypeError, names_file, empty_world)
   \<and> add names_file empty_world JUndefined = (Some invalid_data, names_file, empty_world)
   \<and> add names_file empty_world (JNum 5) = (Some invalid_data, names_file, empty_world)"
  by (simp add: new_names_file)
     (simp add: add_def requireOpen_def names_file_def)


section \<open>Buffered rows\<close>




section \<open>The separator option\<close>

text \<open>
  C6. The code reads the separator from the option key \<open>delimeter\<close>, as it spells it.
  A file built with the key \<open>delimiter\<close> set to a semicolon has the default comma as
  its separator, and its header and data lines are joined with commas.
\<close>

theorem delimiter_key_not_read:
  "new_File line_feed semicolon_options empty_world = Inr (semicolon_file, empty_world)
   \<and> delimeter semicolon_file = '',''
   \<and> add semicolon_file empty_world pair_row = (None, semicolon_file_flushed, semicolon_world)
   \<and> emitted semicolon_world = [DataEvent ''names.csv'' csv_pair]"
  by (simp add: new_semicolon_file add_pair_row)
     (simp add: semicolon_file_def names_file_def semicolon_world_def)

text \<open>
  C6, as the code has it. The option key \<open>delimeter\<close> gives the separator, with the comma as
  default when the key is not supplied; \<open>add\<close>, \<open>flush\<close> and \<open>complete\<close>
  never change it; the header line is the quoted column names joined with it, and every data
  line is its cells, padded to the schema length, joined with it.
\<close>

theorem delimeter_option:
  assumes "new_File os_eol opts w = Inr (this, w0)"
  shows "delimeter this =
           (case opts of
              None \<Rightarrow> '',''
            | Some kvs \<Rightarrow> (case map_of kvs ''delimeter'' of None \<Rightarrow> '','' | Some v \<Rightarrow> str_of v))
    \<and> (\<forall>that v r that' w1 w2.
          add that w1 v = (r, that', w2) \<or> flush that w1 = (r, that', w2)
          \<or> complete that w1 = (r, that', w2) \<longrightarrow> delimeter that' = delimeter that)
    \<and> (\<forall>that. generateCsvHeaders that =
          Inr (join_strings (delimeter that)
                 (map (\<lambda>v. quote that @ js_replace v (quote that) (escape that @ quote that)
                             @ quote that)
                    (keys (fields_map that))) @ eol that))
    \<and> (\<forall>that idx row l. csv_line that idx row = Inr l \<longrightarrow>
          (\<exists>line cells.
             sequence (map (csv_cell that idx) (zip [0..<length row] row)) = Inr line
             \<and> sequence (map element_text
                   (line @ replicate (length idx - length line) (Val (JStr (nullValue that)))))
                 = Inr cells
             \<and> length cells = max (length row) (length idx)
             \<and> l = join_strings (delimeter that) cells @ eol that))"
proof (intro conjI allI impI)
  from assms obtain f where g: "getOptions os_eol opts = Inr f" and o: "open_file f w = (this, w0)"
    by (auto simp: new_File_def split: sum.splits)
  from o have "delimeter this = delimeter f"
    by (auto simp: open_file_def Let_def split: if_splits prod.splits)
  moreover from g have "delimeter f = getOne opts ''delimeter'' '','' str_of"
    by (auto simp: getOptions_def split: option.splits)
  ultimately show "delimeter this =
           (case opts of
              None \<Rightarrow> '',''
            | Some kvs \<Rightarrow> (case map_of kvs ''delimeter'' of None \<Rightarrow> '','' | Some v \<Rightarrow> str_of v))"
    by (simp add: getOne_def)
next
  fix that v r that' w1 w2
  assume "add that w1 v = (r, that', w2) \<or> flush that w1 = (r, that', w2)
          \<or> complete that w1 = (r, that', w2)"
  then show "delimeter that' = delimeter that"
    using add_delimeter flush_delimeter complete_delimeter by blast
next
  fix that
  show "generateCsvHeaders that =
          Inr (join_strings (delimeter that)
                 (map (\<lambda>v. quote that @ js_replace v (quote that) (escape that @ quote that)
                             @ quote that)
                    (keys (fields_map that))) @ eol that)"
    by (rule generateCsvHeaders_returns)
next
  fix that idx row l
  assume "csv_line that idx row = Inr l"
  then show "\<exists>line cells.
             sequence (map (csv_cell that idx) (zip [0..<length row] row)) = Inr line
             \<and> sequence (map element_text
                   (line @ replicate (length idx - length line) (Val (JStr (nullValue that)))))
                 = Inr cells
             \<and> length cells = max (length row) (length idx)
             \<and> l = join_strings (delimeter that) cells @ eol that"
    by (rule csv_line_cells)
qed

theorem delimeter_option_witness:
  "new_File line_feed delimeter_options empty_world
     = Inr (names_file\<lparr>delimeter := '';'', flushLines := 0\<rparr>, empty_world)
   \<and> delimeter (names_file\<lparr>delimeter := '';'', flushLines := 0\<rparr>) = '';''
   \<and> csv_line (names_file\<lparr>delimeter := '';'', flushLines := 0\<rparr>) [''a'', ''b'']
         [Val JNull, Val JUndefined] = Inr (''NULL;NULL'' @ line_feed)"
proof -
  have l: "csv_line (names_file\<lparr>delimeter := '';'', flushLines := 0\<rparr>) [''a'', ''b'']
         [Val JNull, Val JUndefined] = Inr (''NULL;NULL'' @ line_feed)"
    by (simp add: csv_line_def csv_cell_def read_property_def element_text_def js_join_def names_file_def)
  from delimeter_option [OF new_delimeter_file] new_delimeter_file l show ?thesis
    by (simp add: delimeter_options_def)
qed

section \<open>Three rows and a threshold of two\<close>

text \<open>
  C3. With \<open>flushLines = 2\<close> the third \<open>add\<close> flushes all three rows: the text
  ends with the line for C and the buffer is empty afterwards. It is not the text with
  the lines for A and B only, and C's row does not stay behind.
\<close>

theorem third_add_flushes_all_counterexample:
  "new_File line_feed names_options empty_world = Inr (names_file, empty_world)
   \<and> add_all names_file empty_world [name_row ''A'', name_row ''B'', name_row ''C'']
       = (None, names_file_flushed, names_world_ABC)
   \<and> buffer names_file_flushed \<noteq> [[Val (JStr ''C'')]]
   \<and> emitted names_world_ABC \<noteq> [DataEvent ''names.csv'' csv_AB]"
proof -
  have "buffer names_file_flushed \<noteq> [[Val (JStr ''C'')]]"
    and "emitted names_world_ABC \<noteq> [DataEvent ''names.csv'' csv_AB]"
    by (simp_all add: names_file_flushed_def names_world_ABC_def csv_ABC_def csv_AB_def)
  with new_names_file add_all_ABC show ?thesis by - (intro conjI; assumption)
qed

text \<open>
  C3, as the code has it. For every line terminator, path and surroundings: a file built with
  \<open>flushLines = 2\<close> and otherwise default options takes the rows for A and B without
  emitting or writing anything, and the third \<open>add\<close>, of the row for C, flushes once:
  the text is the header line \<open>"Name"\<close> followed by the lines for A, B and C, it is
  written with \<open>writeFile\<close>, and the buffer is empty afterwards.
\<close>

theorem three_name_rows:
  "new_File os_eol (Some [(''flushLines'', ONum 2), (''path'', OStr p)]) w
     = Inr (names_file\<lparr>eol := os_eol, path := PathStr p\<rparr>, w)
   \<and> add_all (names_file\<lparr>eol := os_eol, path := PathStr p\<rparr>) w [name_row ''A'', name_row ''B'']
     = (None, names_file_AB\<lparr>eol := os_eol, path := PathStr p\<rparr>, w)
   \<and> add (names_file_AB\<lparr>eol := os_eol, path := PathStr p\<rparr>) w (name_row ''C'')
     = (None, names_file_AB\<lparr>eol := os_eol, path := PathStr p, buffer := [], lastPath := Some p\<rparr>,
        w\<lparr>emitted := emitted w
               @ [DataEvent p (concat (map (quoted_line os_eol) [''Name'', ''A'', ''B'', ''C'']))],
          dispatched := dispatched w
               @ [(writeFile, p, concat (map (quoted_line os_eol) [''Name'', ''A'', ''B'', ''C'']),
                   ''utf8'')]\<rparr>)"
proof (intro conjI)
  show "new_File os_eol (Some [(''flushLines'', ONum 2), (''path'', OStr p)]) w
     = Inr (names_file\<lparr>eol := os_eol, path := PathStr p\<rparr>, w)"
    by (simp add: names_file_def new_File_def getOptions_def getOne_def open_file_def Let_def)
  show "add_all (names_file\<lparr>eol := os_eol, path := PathStr p\<rparr>) w [name_row ''A'', name_row ''B'']
     = (None, names_file_AB\<lparr>eol := os_eol, path := PathStr p\<rparr>, w)"
    by (simp add: names_file_def names_file_AB_def add_def requireOpen_def name_row_def keys_def get_def read_property_def object_prototype_def autodetectFields_def array_index_Name Let_def)
  show "add (names_file_AB\<lparr>eol := os_eol, path := PathStr p\<rparr>) w (name_row ''C'')
     = (None, names_file_AB\<lparr>eol := os_eol, path := PathStr p, buffer := [], lastPath := Some p\<rparr>,
        w\<lparr>emitted := emitted w
               @ [DataEvent p (concat (map (quoted_line os_eol) [''Name'', ''A'', ''B'', ''C'']))],
          dispatched := dispatched w
               @ [(writeFile, p, concat (map (quoted_line os_eol) [''Name'', ''A'', ''B'', ''C'']),
                   ''utf8'')]\<rparr>)"
    by (simp add: add_def requireOpen_def name_row_def keys_def get_def read_property_def object_prototype_def
      autodetectFields_def names_file_AB_def names_file_def
      flush_def getPath_def generateCsvHeaders_returns generateCsvData_def csv_line_def
      csv_cell_def read_property_def element_text_def enquote_def js_replace_def js_join_def quoted_line_def Let_def)
qed

section \<open>The row-count threshold\<close>




end
